theory Spec2Isabelle
  imports Main "HOL-Library.Char_ord" "HOL-Library.List_Lexorder"
begin

section \<open>The image extraction pipeline of rosbag\_parser/main.py\<close>

text \<open>
  The theory embeds the extraction pipeline of \<^verbatim>\<open>src/rosbag_parser/main.py\<close>:
  \<^verbatim>\<open>get_file_extension\<close>, \<^verbatim>\<open>get_file_name\<close>, \<^verbatim>\<open>filter_image_msgs\<close>,
  \<^verbatim>\<open>process_bag_message\<close>, \<^verbatim>\<open>process_bag_file\<close> and \<^verbatim>\<open>process_bag_files\<close>.
  Python strings are modelled as \<open>string\<close> (lists of 8-bit characters), Python integers
  as \<open>int\<close> or \<open>nat\<close>, exceptions as values of the type \<open>error\<close>.
\<close>

subsection \<open>Python string operations used by the source\<close>

definition digit_char :: "nat \<Rightarrow> char" where
  "digit_char d = ''0123456789'' ! d"

text \<open>\<^verbatim>\<open>str(n)\<close> for a non-negative integer: its decimal digits, no padding.\<close>

function str_nat :: "nat \<Rightarrow> string" where
  "str_nat n = (if n < 10 then [digit_char n] else str_nat (n div 10) @ [digit_char (n mod 10)])"
  by pat_completeness auto
termination
  by (relation "measure (\<lambda>n. n)") auto

declare str_nat.simps [simp del]

text \<open>Zero padding to a minimal width, as \<^verbatim>\<open>strftime\<close> does for \<^verbatim>\<open>%m %d %H %M %S\<close>
  (width 2) and for \<^verbatim>\<open>%Y\<close> (width 4).\<close>

definition zfill :: "nat \<Rightarrow> string \<Rightarrow> string" where
  "zfill w s = replicate (w - length s) (CHR ''0'') @ s"

text \<open>\<^verbatim>\<open>str.lower\<close> on the ASCII letters; other characters are left as they are.\<close>

definition lower_char :: "char \<Rightarrow> char" where
  "lower_char c =
     (case map_of (zip ''ABCDEFGHIJKLMNOPQRSTUVWXYZ'' ''abcdefghijklmnopqrstuvwxyz'') c of
        Some l \<Rightarrow> l
      | None \<Rightarrow> c)"

definition lower :: "string \<Rightarrow> string" where
  "lower s = map lower_char s"

text \<open>\<^verbatim>\<open>s.replace(a, b)\<close> for single characters \<open>a\<close> and \<open>b\<close>.\<close>

definition replace_char :: "char \<Rightarrow> char \<Rightarrow> string \<Rightarrow> string" where
  "replace_char a b s = map (\<lambda>c. if c = a then b else c) s"

text \<open>\<^verbatim>\<open>s.split(sep)\<close> for a non-empty separator: the pieces between the
  non-overlapping occurrences of \<open>sep\<close>, found from the left. The accumulator holds the
  characters of the current piece in reverse.\<close>

function split_acc :: "string \<Rightarrow> string \<Rightarrow> string \<Rightarrow> string list" where
  "split_acc sep acc [] = [rev acc]"
| "split_acc sep acc (c # cs) =
     (if sep \<noteq> [] \<and> take (length sep) (c # cs) = sep
      then rev acc # split_acc sep [] (drop (length sep) (c # cs))
      else split_acc sep (c # acc) cs)"
  by pat_completeness auto
termination
  by (relation "measure (\<lambda>(sep, acc, s). length s)") auto

definition split :: "string \<Rightarrow> string \<Rightarrow> string list" where
  "split s sep = split_acc sep [] s"

subsection \<open>\<^verbatim>\<open>os.path\<close>\<close>

text \<open>\<^verbatim>\<open>os.path.basename(p)\<close> is \<^verbatim>\<open>p[p.rfind('/') + 1:]\<close>.\<close>

definition basename :: "string \<Rightarrow> string" where
  "basename p = rev (takeWhile (\<lambda>c. c \<noteq> CHR ''/'') (rev p))"

text \<open>\<^verbatim>\<open>os.path.splitext(p)\<close>: the extension starts at the last dot of the last path
  component, provided some character other than a dot precedes it in that component;
  otherwise the extension is empty.\<close>

definition splitext :: "string \<Rightarrow> string \<times> string" where
  "splitext p =
     (let name = basename p;
          after = takeWhile (\<lambda>c. c \<noteq> CHR ''.'') (rev name)
      in if length after < length name
            \<and> (\<exists>c \<in> set (take (length name - length after - 1) name). c \<noteq> CHR ''.'')
         then (take (length p - length after - 1) p, drop (length p - length after - 1) p)
         else (p, []))"

subsection \<open>Configuration constants\<close>

definition BAG_FILE_EXTENSION :: string where
  "BAG_FILE_EXTENSION = ''.bag''"

definition DESTINATION_LOCAL_PICTURES :: string where
  "DESTINATION_LOCAL_PICTURES = ''/data1/s3/pictures''"

definition DATA_TYPES :: "string list" where
  "DATA_TYPES = [''sensor_msgs/Image'', ''sensor_msgs/CompressedImage'']"

subsection \<open>File name helpers\<close>

definition get_file_extension :: "string \<Rightarrow> string" where
  "get_file_extension file_name = (let (_, f_extension) = splitext file_name in lower f_extension)"

definition get_file_name :: "string \<Rightarrow> string" where
  "get_file_name file_name = (let (f_name, _) = splitext file_name in lower f_name)"

subsection \<open>Time: \<^verbatim>\<open>rospy.Time\<close> and \<^verbatim>\<open>datetime\<close>\<close>

text \<open>A \<^verbatim>\<open>rospy.Time\<close>: whole seconds since the epoch and the sub-second remainder in
  nanoseconds. Its constructor refuses negative seconds, so both fields are naturals.
  Times are compared through \<^verbatim>\<open>to_nsec()\<close>.\<close>

record rostime =
  secs :: nat
  nsecs :: nat

definition to_nsec :: "rostime \<Rightarrow> nat" where
  "to_nsec tm = secs tm * 1000000000 + nsecs tm"

record datetime =
  dt_year :: int
  dt_month :: int
  dt_day :: int
  dt_hour :: int
  dt_minute :: int
  dt_second :: int

datatype error =
    ValueError
  | TypeError
  | OSError
  | ROSBagException
  | DecodeError
  | UnboundLocalError
  | IndexError

text \<open>The proleptic Gregorian calendar of \<^verbatim>\<open>datetime\<close>: the civil date of a day number
  counted from 1970-01-01, and the day number of a civil date.\<close>

definition civil_from_days :: "int \<Rightarrow> int \<times> int \<times> int" where
  "civil_from_days z0 =
     (let z = z0 + 719468;
          era = z div 146097;
          doe = z mod 146097;
          yoe = (doe - doe div 1460 + doe div 36524 - doe div 146096) div 365;
          y = yoe + era * 400;
          doy = doe - (365 * yoe + yoe div 4 - yoe div 100);
          mp = (5 * doy + 2) div 153;
          d = doy - (153 * mp + 2) div 5 + 1;
          m = (if mp < 10 then mp + 3 else mp - 9)
      in (if m \<le> 2 then y + 1 else y, m, d))"

definition days_from_civil :: "int \<Rightarrow> int \<Rightarrow> int \<Rightarrow> int" where
  "days_from_civil y0 m d =
     (let y = (if m \<le> 2 then y0 - 1 else y0);
          era = y div 400;
          yoe = y - era * 400;
          doy = (153 * (if m > 2 then m - 3 else m + 9) + 2) div 5 + d - 1;
          doe = yoe * 365 + yoe div 4 - yoe div 100 + doy
      in era * 146097 + doe - 719468)"

text \<open>\<^verbatim>\<open>datetime.utcfromtimestamp(secs)\<close> for a non-negative integer (the seconds of a
  \<^verbatim>\<open>rospy.Time\<close>); it raises \<^verbatim>\<open>ValueError\<close> beyond the year 9999.\<close>

definition utcfromtimestamp :: "nat \<Rightarrow> error + datetime" where
  "utcfromtimestamp n =
     (if 253402300799 < n then Inl ValueError
      else (let ts = int n;
                (y, m, d) = civil_from_days (ts div 86400);
                r = ts mod 86400
            in Inr \<lparr>dt_year = y, dt_month = m, dt_day = d,
                    dt_hour = r div 3600, dt_minute = (r mod 3600) div 60,
                    dt_second = r mod 60\<rparr>))"

text \<open>\<^verbatim>\<open>dt.strftime('%Y-%m-%d_%H-%M-%S')\<close>.\<close>

definition strftime :: "datetime \<Rightarrow> string" where
  "strftime dt =
     zfill 4 (str_nat (nat (dt_year dt))) @ ''-'' @ zfill 2 (str_nat (nat (dt_month dt))) @ ''-''
       @ zfill 2 (str_nat (nat (dt_day dt))) @ ''_'' @ zfill 2 (str_nat (nat (dt_hour dt))) @ ''-''
       @ zfill 2 (str_nat (nat (dt_minute dt))) @ ''-'' @ zfill 2 (str_nat (nat (dt_second dt)))"

text \<open>\<^verbatim>\<open>dt.replace(tzinfo=timezone.utc).timestamp()\<close>: the seconds since the epoch of a
  datetime read as UTC. The datetimes of the source come from \<^verbatim>\<open>strptime\<close> with a
  format of whole seconds, so the float is an integer and is modelled as \<open>int\<close>.\<close>

definition timestamp :: "datetime \<Rightarrow> int" where
  "timestamp dt =
     days_from_civil (dt_year dt) (dt_month dt) (dt_day dt) * 86400
       + dt_hour dt * 3600 + dt_minute dt * 60 + dt_second dt"

text \<open>\<^verbatim>\<open>rospy.Time.from_sec\<close> on such a float: the constructor raises
  \<^verbatim>\<open>TypeError\<close> for a time before the epoch.\<close>

definition from_sec :: "int \<Rightarrow> error + rostime" where
  "from_sec float_secs =
     (if float_secs < 0 then Inl TypeError else Inr \<lparr>secs = nat float_secs, nsecs = 0\<rparr>)"

subsection \<open>Containers, the environment and the state\<close>

type_synonym payload = string
type_synonym image = "nat list list"

text \<open>One record of a container as \<^verbatim>\<open>read_messages\<close> sees it: the fields of its
  connection (topic, datatype, md5sum, message definition, header), the message, what
  \<^verbatim>\<open>str(type(msg))\<close> gives for it (\<open>bm_class\<close>) and its time.\<close>

record bag_msg =
  bm_topic :: string
  bm_datatype :: string
  bm_md5sum :: string
  bm_msg_def :: string
  bm_header :: "(string \<times> string) list"
  bm_class :: string
  bm_msg :: payload
  bm_time :: rostime

text \<open>What the source takes from its libraries and from the file system, read only:
  the two decoders of \<^verbatim>\<open>rosbags.image\<close> (\<open>None\<close> when they raise),
  \<^verbatim>\<open>datetime.strptime\<close> (\<open>None\<close> when it raises), \<^verbatim>\<open>os.listdir\<close> (\<open>None\<close> when it
  raises) and \<^verbatim>\<open>rosbag.Bag(file_name, 'r')\<close> (\<open>None\<close> when the container is truncated or
  corrupt and the constructor raises, the records in storage order otherwise).\<close>

record env =
  message_to_cvimage :: "payload \<Rightarrow> image option"
  compressed_image_to_cvimage :: "payload \<Rightarrow> image option"
  strptime :: "string \<Rightarrow> string \<Rightarrow> datetime option"
  listdir :: "string \<Rightarrow> string list option"
  Bag :: "string \<Rightarrow> bag_msg list option"

datatype log_msg =
    Started string "string list option" "string option" "string option"
  | ProcessingFile string
  | WrittenFile string
  | BadWindow "string option" "string option"

text \<open>The calls the pipeline makes to the outside, in the order it makes them.\<close>

datatype call =
    LogInfo log_msg
  | LogError log_msg
  | ListDir string
  | OpenBag string
  | CloseBag string
  | DecodeRaw payload
  | DecodeCompressed payload
  | MakeDirs string
  | ImWrite string image

text \<open>The state the pipeline changes: the directories and the image files of the output
  tree, and the record of the calls made so far. File system calls are taken to succeed
  (the source does not handle their failure).\<close>

record state =
  dirs :: "string set"
  files :: "string \<rightharpoonup> image"
  calls :: "call list"

datatype outcome = Done | Raised error

definition add_call :: "call \<Rightarrow> state \<Rightarrow> state" where
  "add_call c s = s\<lparr>calls := calls s @ [c]\<rparr>"

definition makedirs :: "string \<Rightarrow> state \<Rightarrow> state" where
  "makedirs p s = add_call (MakeDirs p) (s\<lparr>dirs := insert p (dirs s)\<rparr>)"

definition imwrite :: "string \<Rightarrow> image \<Rightarrow> state \<Rightarrow> state" where
  "imwrite p img s = add_call (ImWrite p img) (s\<lparr>files := (files s)(p \<mapsto> img)\<rparr>)"

subsection \<open>The reader\<close>

text \<open>Modelled from the spec: \<^verbatim>\<open>rosbag.Bag.read_messages\<close> is library code outside the
  repository. Following sections 4.1 and 6 of the specification it yields, in storage
  order, the records whose channel is in the allow-list (an absent or empty list
  admits every channel), whose connection the filter admits, and whose time lies in the
  inclusive range from \<open>start_time\<close> to \<open>end_time\<close>.\<close>

definition read_messages ::
  "bag_msg list \<Rightarrow> string list option \<Rightarrow> rostime \<Rightarrow> rostime
     \<Rightarrow> (string \<Rightarrow> string \<Rightarrow> string \<Rightarrow> string \<Rightarrow> (string \<times> string) list \<Rightarrow> bool) \<Rightarrow> bag_msg list" where
  "read_messages bag topics start_time end_time connection_filter =
     filter (\<lambda>r. (case topics of None \<Rightarrow> True | Some ts \<Rightarrow> ts = [] \<or> bm_topic r \<in> set ts)
                 \<and> connection_filter (bm_topic r) (bm_datatype r) (bm_md5sum r) (bm_msg_def r) (bm_header r)
                 \<and> to_nsec start_time \<le> to_nsec (bm_time r)
                 \<and> to_nsec (bm_time r) \<le> to_nsec end_time) bag"

subsection \<open>The pipeline\<close>

definition filter_image_msgs ::
  "string \<Rightarrow> string \<Rightarrow> string \<Rightarrow> string \<Rightarrow> (string \<times> string) list \<Rightarrow> bool" where
  "filter_image_msgs topic datatype md5sum msg_def header =
     (if datatype \<in> set DATA_TYPES then True else False)"

text \<open>The dispatch of \<^verbatim>\<open>process_bag_message\<close> on the type name: the result is the
  value of the variable \<^verbatim>\<open>img\<close>, \<open>None\<close> when no branch has assigned it.\<close>

definition decode :: "env \<Rightarrow> string \<Rightarrow> payload \<Rightarrow> state \<Rightarrow> (error + image option) \<times> state" where
  "decode env datatype message s =
     (if datatype = ''Image'' then
        (case message_to_cvimage env message of
           None \<Rightarrow> (Inl DecodeError, add_call (DecodeRaw message) s)
         | Some img \<Rightarrow> (Inr (Some img), add_call (DecodeRaw message) s))
      else if datatype = ''CompressedImage'' then
        (case compressed_image_to_cvimage env message of
           None \<Rightarrow> (Inl DecodeError, add_call (DecodeCompressed message) s)
         | Some img \<Rightarrow> (Inr (Some img), add_call (DecodeCompressed message) s))
      else (Inr None, s))"

text \<open>\<^verbatim>\<open>topic[1:].replace('/', '_')\<close>, the value of \<^verbatim>\<open>topic_str\<close> in
  \<^verbatim>\<open>process_bag_message\<close>.\<close>

definition topic_str :: "string \<Rightarrow> string" where
  "topic_str topic = replace_char (CHR ''/'') (CHR ''_'') (drop 1 topic)"

text \<open>The names \<^verbatim>\<open>process_bag_message\<close> computes before it decodes: the values of
  \<^verbatim>\<open>out_dir_name\<close> and \<^verbatim>\<open>out_file_name\<close>.\<close>

definition out_names ::
  "string \<Rightarrow> string \<Rightarrow> string \<Rightarrow> rostime \<Rightarrow> string \<Rightarrow> error + (string \<times> string)" where
  "out_names file_name topic datatype time_stamp folder_name_suffix =
     (let base_file_name = get_file_name (basename file_name);
          nanosecs = str_nat (nsecs time_stamp)
      in case utcfromtimestamp (secs time_stamp) of
           Inl e \<Rightarrow> Inl e
         | Inr dt \<Rightarrow>
             (let time_str = strftime dt @ ''-'' @ nanosecs;
                  out_file_name = time_str @ ''('' @ base_file_name @ '')'';
                  topic_s = topic_str topic;
                  out_dir_name = DESTINATION_LOCAL_PICTURES @ ''/'' @ topic_s @ ''/''
                                   @ datatype @ ''/'' @ folder_name_suffix @ ''/''
              in Inr (out_dir_name, out_file_name)))"

definition process_bag_message ::
  "env \<Rightarrow> string \<Rightarrow> string \<Rightarrow> payload \<Rightarrow> string \<Rightarrow> rostime \<Rightarrow> string \<Rightarrow> state \<Rightarrow> outcome \<times> state" where
  "process_bag_message env file_name topic message datatype time_stamp folder_name_suffix s =
     (case out_names file_name topic datatype time_stamp folder_name_suffix of
        Inl e \<Rightarrow> (Raised e, s)
      | Inr (out_dir_name, out_file_name) \<Rightarrow>
          (case decode env datatype message s of
             (Inl e, s1) \<Rightarrow> (Raised e, s1)
           | (Inr img, s1) \<Rightarrow>
               (let s2 = (if out_dir_name \<notin> dirs s1 then makedirs out_dir_name s1 else s1)
                in case img of
                     None \<Rightarrow> (Raised UnboundLocalError, s2)
                   | Some i \<Rightarrow>
                       (Done, add_call (LogInfo (WrittenFile out_file_name))
                                (imwrite (out_dir_name @ out_file_name @ ''.png'') i s2)))))"

text \<open>\<^verbatim>\<open>(str(type(msg)).split('__')[1])[:-2]\<close>: the index raises \<^verbatim>\<open>IndexError\<close> when
  the string has no \<^verbatim>\<open>__\<close>.\<close>

definition class_datatype :: "string \<Rightarrow> error + string" where
  "class_datatype cls =
     (case split cls ''__'' of
        _ # part # _ \<Rightarrow> Inr (take (length part - 2) part)
      | _ \<Rightarrow> Inl IndexError)"

text \<open>The loop of \<^verbatim>\<open>process_bag_file\<close> over the records the reader yields. An exception
  leaves the loop (the source has no handler).\<close>

fun process_bag_file_loop :: "env \<Rightarrow> string \<Rightarrow> string \<Rightarrow> bag_msg list \<Rightarrow> state \<Rightarrow> outcome \<times> state" where
  "process_bag_file_loop env file_name folder_name_suffix [] s = (Done, s)"
| "process_bag_file_loop env file_name folder_name_suffix (r # rs) s =
     (case class_datatype (bm_class r) of
        Inl e \<Rightarrow> (Raised e, s)
      | Inr datatype \<Rightarrow>
          (case process_bag_message env file_name (bm_topic r) (bm_msg r) datatype (bm_time r)
                  folder_name_suffix s of
             (Done, s') \<Rightarrow> process_bag_file_loop env file_name folder_name_suffix rs s'
           | (Raised e, s') \<Rightarrow> (Raised e, s')))"

definition process_bag_file ::
  "env \<Rightarrow> string \<Rightarrow> string list option \<Rightarrow> rostime \<Rightarrow> rostime \<Rightarrow> state \<Rightarrow> outcome \<times> state" where
  "process_bag_file env file_name topics start_time end_time s0 =
     (let s = add_call (LogInfo (ProcessingFile file_name)) s0
      in case utcfromtimestamp (secs start_time) of
           Inl e \<Rightarrow> (Raised e, s)
         | Inr dt_start \<Rightarrow>
        (case utcfromtimestamp (secs end_time) of
           Inl e \<Rightarrow> (Raised e, s)
         | Inr dt_end \<Rightarrow>
             (let folder_name_suffix_start = strftime dt_start;
                  folder_name_suffix_end = strftime dt_end;
                  folder_name_suffix = folder_name_suffix_start @ ''_'' @ folder_name_suffix_end
              in case Bag env file_name of
                   None \<Rightarrow> (Raised ROSBagException, add_call (OpenBag file_name) s)
                 | Some bag \<Rightarrow>
                     (case process_bag_file_loop env file_name folder_name_suffix
                             (read_messages bag topics start_time end_time filter_image_msgs)
                             (add_call (OpenBag file_name) s) of
                        (Done, s') \<Rightarrow> (Done, add_call (CloseBag file_name) s')
                      | (Raised e, s') \<Rightarrow> (Raised e, s')))))"

text \<open>The loop of \<^verbatim>\<open>process_bag_files\<close> over the sorted files, again without a handler.\<close>

fun process_bag_files_loop ::
  "env \<Rightarrow> string list \<Rightarrow> string list option \<Rightarrow> rostime \<Rightarrow> rostime \<Rightarrow> state \<Rightarrow> outcome \<times> state" where
  "process_bag_files_loop env [] topics start_timestamp end_timestamp s = (Done, s)"
| "process_bag_files_loop env (fl # fls) topics start_timestamp end_timestamp s =
     (case process_bag_file env fl topics start_timestamp end_timestamp s of
        (Done, s') \<Rightarrow> process_bag_files_loop env fls topics start_timestamp end_timestamp s'
      | (Raised e, s') \<Rightarrow> (Raised e, s'))"

definition process_bag_files ::
  "env \<Rightarrow> string \<Rightarrow> string list option \<Rightarrow> string option \<Rightarrow> string option \<Rightarrow> state \<Rightarrow> outcome \<times> state" where
  "process_bag_files env path_to_files topics start_time end_time s0 =
     (let s = add_call (LogInfo (Started path_to_files topics start_time end_time)) s0;
          epoch_start = ''1980-01-01'';
          epoch_end = ''2900-12-31''
      in case (case start_time of
                 None \<Rightarrow> strptime env epoch_start ''%Y-%m-%d''
               | Some st \<Rightarrow> strptime env st ''%Y-%m-%d %H:%M:%S'') of
           None \<Rightarrow> (Raised ValueError, s)
         | Some start_time_t \<Rightarrow>
        (case (case end_time of
                 None \<Rightarrow> strptime env epoch_end ''%Y-%m-%d''
               | Some en \<Rightarrow> strptime env en ''%Y-%m-%d %H:%M:%S'') of
           None \<Rightarrow> (Raised ValueError, s)
         | Some end_time_t \<Rightarrow>
        (case from_sec (timestamp start_time_t) of
           Inl e \<Rightarrow> (Raised e, s)
         | Inr start_timestamp \<Rightarrow>
        (case from_sec (timestamp end_time_t) of
           Inl e \<Rightarrow> (Raised e, s)
         | Inr end_timestamp \<Rightarrow>
             if to_nsec start_timestamp > to_nsec end_timestamp
             then (Done, add_call (LogError (BadWindow start_time end_time)) s)
             else (case listdir env path_to_files of
                     None \<Rightarrow> (Raised OSError, add_call (ListDir path_to_files) s)
                   | Some lst_files0 \<Rightarrow>
                       (let lst_files = sort (map (\<lambda>fl. path_to_files @ fl)
                                                (filter (\<lambda>fl. get_file_extension fl = BAG_FILE_EXTENSION)
                                                   lst_files0))
                        in process_bag_files_loop env lst_files topics start_timestamp end_timestamp
                             (add_call (ListDir path_to_files) s)))))))"

subsection \<open>The naming algorithm in the words of the specification\<close>

text \<open>Section 4.4 of the specification, step by step. A time is formatted as
  \<^verbatim>\<open>YYYY-MM-DD_HH-MM-SS\<close> in UTC; the result is \<open>None\<close> for a time that has no such
  form.\<close>

definition spec_date_token :: "nat \<Rightarrow> string option" where
  "spec_date_token whole_seconds =
     (case utcfromtimestamp whole_seconds of Inl _ \<Rightarrow> None | Inr dt \<Rightarrow> Some (strftime dt))"

definition spec_base_file_name :: "string \<Rightarrow> string" where
  "spec_base_file_name source_file = lower (fst (splitext (basename source_file)))"

definition spec_channel_token :: "string \<Rightarrow> string" where
  "spec_channel_token channel =
     replace_char (CHR ''/'') (CHR ''_'')
       (case channel of
          [] \<Rightarrow> []
        | c # rest \<Rightarrow> if c = CHR ''/'' then rest else c # rest)"

definition spec_output_path ::
  "string \<Rightarrow> string \<Rightarrow> string \<Rightarrow> string \<Rightarrow> rostime \<Rightarrow> rostime \<Rightarrow> rostime \<Rightarrow> string option" where
  "spec_output_path output_root source_file channel declared_type time_stamp window_start window_end =
     (case (spec_date_token (secs time_stamp), spec_date_token (secs window_start),
            spec_date_token (secs window_end)) of
        (Some record_date, Some window_start_date, Some window_end_date) \<Rightarrow>
          (let time_token = record_date @ ''-'' @ str_nat (nsecs time_stamp);
               file_stem = time_token @ ''('' @ spec_base_file_name source_file @ '')'';
               window_suffix = window_start_date @ ''_'' @ window_end_date
           in Some (output_root @ ''/'' @ spec_channel_token channel @ ''/'' @ declared_type
                      @ ''/'' @ window_suffix @ ''/'' @ file_stem @ ''.png''))
      | _ \<Rightarrow> None)"

subsection \<open>An example environment\<close>

definition ex_strptime :: "string \<Rightarrow> string \<Rightarrow> datetime option" where
  "ex_strptime date_string format =
     (if format = ''%Y-%m-%d %H:%M:%S'' then
        map_of [(''2023-08-22 18:33:48'',
                   \<lparr>dt_year = 2023, dt_month = 8, dt_day = 22,
                    dt_hour = 18, dt_minute = 33, dt_second = 48\<rparr>),
                (''2023-08-22 18:33:52'',
                   \<lparr>dt_year = 2023, dt_month = 8, dt_day = 22,
                    dt_hour = 18, dt_minute = 33, dt_second = 52\<rparr>),
                (''1969-06-01 00:00:00'',
                   \<lparr>dt_year = 1969, dt_month = 6, dt_day = 1,
                    dt_hour = 0, dt_minute = 0, dt_second = 0\<rparr>),
                (''1969-01-01 00:00:00'',
                   \<lparr>dt_year = 1969, dt_month = 1, dt_day = 1,
                    dt_hour = 0, dt_minute = 0, dt_second = 0\<rparr>)] date_string
      else if format = ''%Y-%m-%d'' then
        map_of [(''1980-01-01'',
                   \<lparr>dt_year = 1980, dt_month = 1, dt_day = 1,
                    dt_hour = 0, dt_minute = 0, dt_second = 0\<rparr>),
                (''2900-12-31'',
                   \<lparr>dt_year = 2900, dt_month = 12, dt_day = 31,
                    dt_hour = 0, dt_minute = 0, dt_second = 0\<rparr>)] date_string
      else None)"

definition ex_msg :: "string \<Rightarrow> string \<Rightarrow> string \<Rightarrow> payload \<Rightarrow> nat \<Rightarrow> nat \<Rightarrow> bag_msg" where
  "ex_msg tp ty cls pl sec nsec =
     \<lparr>bm_topic = tp, bm_datatype = ty, bm_md5sum = [], bm_msg_def = [], bm_header = [],
      bm_class = cls, bm_msg = pl, bm_time = \<lparr>secs = sec, nsecs = nsec\<rparr>\<rparr>"

definition ex_depth_topic :: string where
  "ex_depth_topic = ''/realsense_gripper/aligned_depth_to_color/image_raw''"

definition ex_color_topic :: string where
  "ex_color_topic = ''/realsense_gripper/color/image_raw/compressed''"

definition ex_image_class :: string where
  "ex_image_class = ''<class 'tmpk3x9._sensor_msgs__Image'>''"

definition ex_compressed_class :: string where
  "ex_compressed_class = ''<class 'tmpk3x9._sensor_msgs__CompressedImage'>''"

text \<open>A container with a record before the window of the configuration
  (1692729228 to 1692729232), two records inside it, a record of another type inside
  it, and a record after it.\<close>

definition ex_bag :: "bag_msg list" where
  "ex_bag =
     [ex_msg ex_depth_topic ''sensor_msgs/Image'' ex_image_class ''depth0'' 1692729227 999999999,
      ex_msg ex_depth_topic ''sensor_msgs/Image'' ex_image_class ''depth1'' 1692729229 5,
      ex_msg ''/chatter'' ''std_msgs/String'' ''<class 'tmpk3x9._std_msgs__String'>'' ''hello'' 1692729230 0,
      ex_msg ex_color_topic ''sensor_msgs/CompressedImage'' ex_compressed_class ''color1'' 1692729230 70,
      ex_msg ex_color_topic ''sensor_msgs/CompressedImage'' ex_compressed_class ''color2'' 1692729233 0]"

definition ex_env :: env where
  "ex_env =
     \<lparr>message_to_cvimage = map_of [(''depth0'', [[0]]), (''depth1'', [[1]])],
      compressed_image_to_cvimage = map_of [(''color1'', [[2, 2]]), (''color2'', [[3, 3]])],
      strptime = ex_strptime,
      listdir = map_of [(''/data1/s3/bg/'', [''b.bag'', ''notes.txt'', ''a.bag'', ''c.BAG''])],
      Bag = map_of [(''/data1/s3/bg/a.bag'', ex_bag), (''/data1/s3/bg/c.BAG'', [])]\<rparr>"

definition empty_state :: state where
  "empty_state = \<lparr>dirs = {}, files = Map.empty, calls = []\<rparr>"

text \<open>The same container with the payload of its first in-window record damaged, so
  that the decoder raises on it.\<close>

definition ex_bad_bag :: "bag_msg list" where
  "ex_bad_bag =
     [ex_msg ex_depth_topic ''sensor_msgs/Image'' ex_image_class ''truncated'' 1692729229 5,
      ex_msg ex_color_topic ''sensor_msgs/CompressedImage'' ex_compressed_class ''color1''
        1692729230 70]"

definition ex_env_bad :: env where
  "ex_env_bad = ex_env\<lparr>Bag := map_of [(''/data1/s3/bg/a.bag'', ex_bad_bag)]\<rparr>"

text \<open>A directory with three readable (empty) containers, listed out of order.\<close>

definition ex_env_sorted :: env where
  "ex_env_sorted =
     ex_env\<lparr>listdir := map_of [(''/data1/s3/bg/'', [''b.bag'', ''a.bag'', ''c.bag''])],
            Bag := (\<lambda>file_name. Some [])\<rparr>"

subsection \<open>Observations on the record of calls\<close>

definition opened :: "call list \<Rightarrow> string list" where
  "opened cs = concat (map (\<lambda>c. case c of OpenBag f \<Rightarrow> [f] | _ \<Rightarrow> []) cs)"

definition written :: "call list \<Rightarrow> (string \<times> image) list" where
  "written cs = concat (map (\<lambda>c. case c of ImWrite p img \<Rightarrow> [(p, img)] | _ \<Rightarrow> []) cs)"

definition decoded :: "call list \<Rightarrow> payload list" where
  "decoded cs =
     concat (map (\<lambda>c. case c of DecodeRaw m \<Rightarrow> [m] | DecodeCompressed m \<Rightarrow> [m] | _ \<Rightarrow> []) cs)"

text \<open>The image the dispatch of \<^verbatim>\<open>process_bag_message\<close> obtains for a type name, and
  the file the pipeline writes for one record of a container: its path and its image
  (\<open>None\<close> when the record raises).\<close>

definition decoded_image :: "env \<Rightarrow> string \<Rightarrow> payload \<Rightarrow> image option" where
  "decoded_image env type_name message =
     (if type_name = ''Image'' then message_to_cvimage env message
      else if type_name = ''CompressedImage'' then compressed_image_to_cvimage env message
      else None)"

definition record_output :: "env \<Rightarrow> string \<Rightarrow> string \<Rightarrow> bag_msg \<Rightarrow> (string \<times> image) option" where
  "record_output env file_name sfx r =
     (case class_datatype (bm_class r) of
        Inl _ \<Rightarrow> None
      | Inr type_name \<Rightarrow>
          (case out_names file_name (bm_topic r) type_name (bm_time r) sfx of
             Inl _ \<Rightarrow> None
           | Inr (d, n) \<Rightarrow>
               (case decoded_image env type_name (bm_msg r) of
                  None \<Rightarrow> None
                | Some img \<Rightarrow> Some (d @ n @ ''.png'', img))))"

text \<open>Running one step after another, as Python does: an exception of the first step
  skips the second.\<close>

definition seq ::
  "(state \<Rightarrow> outcome \<times> state) \<Rightarrow> (state \<Rightarrow> outcome \<times> state) \<Rightarrow> state \<Rightarrow> outcome \<times> state" where
  "seq a b s = (case a s of (Done, s') \<Rightarrow> b s' | (Raised e, s') \<Rightarrow> (Raised e, s'))"

text \<open>A step whose outcome, writes and created directories are the same from every
  state.\<close>

definition state_independent :: "(state \<Rightarrow> outcome \<times> state) \<Rightarrow> bool" where
  "state_independent step \<longleftrightarrow>
     (\<exists>out ws W D. \<forall>s. fst (step s) = out
                       \<and> written (calls (snd (step s))) = written (calls s) @ ws
                       \<and> files (snd (step s)) = files s ++ W
                       \<and> dirs (snd (step s)) = dirs s \<union> D)"

section \<open>Properties\<close>

subsection \<open>The reader ignores what it does not select\<close>

lemma decode_env_Bag [simp]: "decode (env\<lparr>Bag := b\<rparr>) = decode env"
  by (intro ext) (simp add: decode_def)

lemma process_bag_message_env_Bag [simp]:
  "process_bag_message (env\<lparr>Bag := b\<rparr>) = process_bag_message env"
  by (intro ext) (simp add: process_bag_message_def split: sum.splits prod.splits)

lemma process_bag_file_loop_env_Bag [simp]:
  "process_bag_file_loop (env\<lparr>Bag := b\<rparr>) file_name sfx rs s
     = process_bag_file_loop env file_name sfx rs s"
  by (induction rs arbitrary: s) (auto split: sum.splits prod.splits outcome.splits)

lemma read_messages_admitted:
  "read_messages (filter (\<lambda>r. bm_datatype r \<in> set DATA_TYPES) bag)
      topics start_time end_time filter_image_msgs
     = read_messages bag topics start_time end_time filter_image_msgs"
  unfolding read_messages_def filter_image_msgs_def filter_filter
  by (rule filter_cong) auto

lemma read_messages_window:
  "read_messages
      (filter (\<lambda>r. to_nsec start_time \<le> to_nsec (bm_time r)
                   \<and> to_nsec (bm_time r) \<le> to_nsec end_time) bag)
      topics start_time end_time flt
     = read_messages bag topics start_time end_time flt"
  unfolding read_messages_def filter_filter
  by (rule filter_cong) auto

lemma process_bag_file_replace:
  assumes "Bag env file_name = Some bag"
    and "read_messages bag' topics start_time end_time filter_image_msgs
          = read_messages bag topics start_time end_time filter_image_msgs"
  shows "process_bag_file (env\<lparr>Bag := (Bag env)(file_name \<mapsto> bag')\<rparr>)
            file_name topics start_time end_time s
          = process_bag_file env file_name topics start_time end_time s"
  using assms by (simp add: process_bag_file_def Let_def split: sum.splits)

text \<open>
  Claim C4. The inclusion predicate is true exactly for the declared types of the
  configured allow-list \<open>DATA_TYPES\<close>, and a record of any other declared type is excluded
  without a trace: processing a container gives the same outcome and the same state
  (files, directories and calls, so no decode, no write and no error) as processing the
  container with those records taken out.
\<close>

theorem C4_type_filter:
  "filter_image_msgs topic declared_type md5sum msg_def header = (declared_type \<in> set DATA_TYPES)
   \<and> (\<forall>bag. Bag env file_name = Some bag \<longrightarrow>
         process_bag_file
           (env\<lparr>Bag := (Bag env)(file_name \<mapsto>
                           filter (\<lambda>r. bm_datatype r \<in> set DATA_TYPES) bag)\<rparr>)
           file_name topics start_time end_time s
         = process_bag_file env file_name topics start_time end_time s)"
proof (intro conjI allI impI)
  show "filter_image_msgs topic declared_type md5sum msg_def header = (declared_type \<in> set DATA_TYPES)"
    by (simp add: filter_image_msgs_def)
next
  fix bag
  assume "Bag env file_name = Some bag"
  then show "process_bag_file
           (env\<lparr>Bag := (Bag env)(file_name \<mapsto>
                           filter (\<lambda>r. bm_datatype r \<in> set DATA_TYPES) bag)\<rparr>)
           file_name topics start_time end_time s
         = process_bag_file env file_name topics start_time end_time s"
    by (rule process_bag_file_replace) (simp_all add: read_messages_admitted)
qed

theorem C4_type_filter_witness:
  "filter_image_msgs ''/chatter'' ''std_msgs/String'' [] [] [] = False
   \<and> filter (\<lambda>r. bm_datatype r \<in> set DATA_TYPES) ex_bag \<noteq> ex_bag
   \<and> process_bag_file
        (ex_env\<lparr>Bag := (Bag ex_env)(''/data1/s3/bg/a.bag'' \<mapsto>
                           filter (\<lambda>r. bm_datatype r \<in> set DATA_TYPES) ex_bag)\<rparr>)
        ''/data1/s3/bg/a.bag'' None \<lparr>secs = 1692729228, nsecs = 0\<rparr>
        \<lparr>secs = 1692729232, nsecs = 0\<rparr> empty_state
      = process_bag_file ex_env ''/data1/s3/bg/a.bag'' None \<lparr>secs = 1692729228, nsecs = 0\<rparr>
          \<lparr>secs = 1692729232, nsecs = 0\<rparr> empty_state"
  using C4_type_filter [where env = ex_env and file_name = "''/data1/s3/bg/a.bag''"
      and topic = "''/chatter''" and declared_type = "''std_msgs/String''"
      and md5sum = "[]" and msg_def = "[]" and header = "[]"
      and topics = None and start_time = "\<lparr>secs = 1692729228, nsecs = 0\<rparr>"
      and end_time = "\<lparr>secs = 1692729232, nsecs = 0\<rparr>" and s = empty_state]
  by (simp add: ex_env_def ex_bag_def ex_msg_def DATA_TYPES_def)

subsection \<open>Window validation\<close>

text \<open>
  Claim C3 (amended). The source converts both bounds to \<^verbatim>\<open>rospy.Time\<close> before it
  compares them, and that conversion raises for a bound before 1970-01-01. For all
  window bounds with start later than end, both at or after the epoch, the driver logs
  the error and returns: the directory is not listed, no container is opened, no record
  is decoded or written; the state is the given one with the two log entries added.
\<close>

theorem C3_window_validation:
  assumes "(case start_time of None \<Rightarrow> strptime env ''1980-01-01'' ''%Y-%m-%d''
            | Some st \<Rightarrow> strptime env st ''%Y-%m-%d %H:%M:%S'') = Some start_time_t"
    and "(case end_time of None \<Rightarrow> strptime env ''2900-12-31'' ''%Y-%m-%d''
            | Some en \<Rightarrow> strptime env en ''%Y-%m-%d %H:%M:%S'') = Some end_time_t"
    and "from_sec (timestamp start_time_t) = Inr start_timestamp"
    and "from_sec (timestamp end_time_t) = Inr end_timestamp"
    and "to_nsec start_timestamp > to_nsec end_timestamp"
  shows "process_bag_files env path_to_files topics start_time end_time s =
           (Done, s\<lparr>calls := calls s @
                      [LogInfo (Started path_to_files topics start_time end_time),
                       LogError (BadWindow start_time end_time)]\<rparr>)"
  using assms unfolding process_bag_files_def by (simp add: Let_def add_call_def)

theorem C3_window_validation_witness:
  "process_bag_files ex_env ''/data1/s3/bg/'' None
      (Some ''2023-08-22 18:33:52'') (Some ''2023-08-22 18:33:48'') empty_state
   = (Done, \<lparr>dirs = {}, files = Map.empty,
             calls = [LogInfo (Started ''/data1/s3/bg/'' None
                                 (Some ''2023-08-22 18:33:52'') (Some ''2023-08-22 18:33:48'')),
                      LogError (BadWindow (Some ''2023-08-22 18:33:52'')
                                  (Some ''2023-08-22 18:33:48''))]\<rparr>)"
  using C3_window_validation [where env = ex_env
      and start_time = "Some ''2023-08-22 18:33:52''"
      and end_time = "Some ''2023-08-22 18:33:48''"
      and start_time_t = "\<lparr>dt_year = 2023, dt_month = 8, dt_day = 22,
                            dt_hour = 18, dt_minute = 33, dt_second = 52\<rparr>"
      and end_time_t = "\<lparr>dt_year = 2023, dt_month = 8, dt_day = 22,
                          dt_hour = 18, dt_minute = 33, dt_second = 48\<rparr>"
      and start_timestamp = "\<lparr>secs = 1692729232, nsecs = 0\<rparr>"
      and end_timestamp = "\<lparr>secs = 1692729228, nsecs = 0\<rparr>"
      and path_to_files = "''/data1/s3/bg/''" and topics = None and s = empty_state]
  by (simp add: ex_env_def ex_strptime_def timestamp_def days_from_civil_def from_sec_def
        to_nsec_def empty_state_def)

text \<open>The claim as stated fails for a window before the epoch: with start 1969-06-01 and
  end 1969-01-01 the driver raises \<^verbatim>\<open>TypeError\<close> and reports no configuration error.\<close>

theorem C3_pre_epoch_counterexample:
  "timestamp \<lparr>dt_year = 1969, dt_month = 6, dt_day = 1,
              dt_hour = 0, dt_minute = 0, dt_second = 0\<rparr>
     > timestamp \<lparr>dt_year = 1969, dt_month = 1, dt_day = 1,
                  dt_hour = 0, dt_minute = 0, dt_second = 0\<rparr>
   \<and> process_bag_files ex_env ''/data1/s3/bg/'' None
        (Some ''1969-06-01 00:00:00'') (Some ''1969-01-01 00:00:00'') empty_state
      = (Raised TypeError,
         \<lparr>dirs = {}, files = Map.empty,
          calls = [LogInfo (Started ''/data1/s3/bg/'' None
                              (Some ''1969-06-01 00:00:00'') (Some ''1969-01-01 00:00:00''))]\<rparr>)"
  by (simp add: process_bag_files_def ex_env_def ex_strptime_def timestamp_def days_from_civil_def
        from_sec_def add_call_def empty_state_def)

subsection \<open>The channel token\<close>

text \<open>
  Claim C10. The channel token is the channel without its first character, whatever
  that character is, with every remaining \<^verbatim>\<open>/\<close> replaced by \<^verbatim>\<open>_\<close>. For a channel
  that begins with \<^verbatim>\<open>/\<close> this is the token of the specification (leading separator
  stripped); for a channel that begins with another character, that character is dropped
  and the token differs from the one of the specification.
\<close>

theorem C10_channel_token:
  "topic_str topic = replace_char (CHR ''/'') (CHR ''_'') (drop 1 topic)
   \<and> (\<forall>rest. topic = CHR ''/'' # rest \<longrightarrow> topic_str topic = spec_channel_token topic)
   \<and> (\<forall>c rest. topic = c # rest \<and> c \<noteq> CHR ''/'' \<longrightarrow>
         topic_str topic = replace_char (CHR ''/'') (CHR ''_'') rest
         \<and> topic_str topic \<noteq> spec_channel_token topic)"
proof -
  have "length (replace_char (CHR ''/'') (CHR ''_'') rest)
          \<noteq> length (replace_char (CHR ''/'') (CHR ''_'') (c # rest))" for c rest
    by (simp add: replace_char_def)
  then have "replace_char (CHR ''/'') (CHR ''_'') rest
          \<noteq> replace_char (CHR ''/'') (CHR ''_'') (c # rest)" for c rest
    by metis
  then show ?thesis
    by (auto simp: topic_str_def spec_channel_token_def)
qed

theorem C10_channel_token_witness:
  "topic_str ''/cam/image_raw'' = spec_channel_token ''/cam/image_raw''
   \<and> topic_str ''/cam/image_raw'' = ''cam_image_raw''
   \<and> topic_str ''chatter'' = ''hatter''
   \<and> spec_channel_token ''chatter'' = ''chatter''
   \<and> topic_str ''chatter'' \<noteq> spec_channel_token ''chatter''"
  using C10_channel_token [of "''/cam/image_raw''"] C10_channel_token [of "''chatter''"]
  by (simp add: replace_char_def spec_channel_token_def)

subsection \<open>The dispatch on the type name\<close>







subsection \<open>Loops, exceptions and the containers opened\<close>

lemma process_bag_files_loop_append:
  "process_bag_files_loop env (xs @ ys) topics st en s =
     (case process_bag_files_loop env xs topics st en s of
        (Done, s') \<Rightarrow> process_bag_files_loop env ys topics st en s'
      | (Raised e, s') \<Rightarrow> (Raised e, s'))"
  by (induction xs arbitrary: s) (auto split: prod.splits outcome.splits)

lemma process_bag_file_loop_append:
  "process_bag_file_loop env file_name sfx (xs @ ys) s =
     (case process_bag_file_loop env file_name sfx xs s of
        (Done, s') \<Rightarrow> process_bag_file_loop env file_name sfx ys s'
      | (Raised e, s') \<Rightarrow> (Raised e, s'))"
  by (induction xs arbitrary: s) (auto split: prod.splits outcome.splits sum.splits)

lemma process_bag_file_corrupt:
  assumes "Bag env file_name = None"
    and "utcfromtimestamp (secs start_time) = Inr dt_start"
    and "utcfromtimestamp (secs end_time) = Inr dt_end"
  shows "process_bag_file env file_name topics start_time end_time s =
           (Raised ROSBagException,
            add_call (OpenBag file_name) (add_call (LogInfo (ProcessingFile file_name)) s))"
  using assms by (simp add: process_bag_file_def)

lemma batch_stops_at_corrupt:
  assumes "process_bag_files_loop env before topics start_time end_time s = (Done, s1)"
    and "Bag env file_name = None"
    and "utcfromtimestamp (secs start_time) = Inr dt_start"
    and "utcfromtimestamp (secs end_time) = Inr dt_end"
  shows "process_bag_files_loop env (before @ file_name # rest) topics start_time end_time s =
           (Raised ROSBagException,
            add_call (OpenBag file_name) (add_call (LogInfo (ProcessingFile file_name)) s1))"
  using assms process_bag_file_corrupt [OF assms(2-4)]
  by (simp add: process_bag_files_loop_append)

lemma process_bag_message_decode_error:
  assumes "out_names file_name topic type_name time_stamp sfx = Inr names"
    and "(type_name = ''Image'' \<and> message_to_cvimage env message = None)
         \<or> (type_name = ''CompressedImage'' \<and> compressed_image_to_cvimage env message = None)"
  shows "process_bag_message env file_name topic message type_name time_stamp sfx s =
           (Raised DecodeError,
            add_call (if type_name = ''Image'' then DecodeRaw message
                      else DecodeCompressed message) s)"
  using assms by (cases names) (auto simp: process_bag_message_def decode_def)

lemma container_stops_at_decode_error:
  assumes "process_bag_file_loop env file_name sfx before s = (Done, s1)"
    and "class_datatype (bm_class r) = Inr type_name"
    and "out_names file_name (bm_topic r) type_name (bm_time r) sfx = Inr names"
    and "(type_name = ''Image'' \<and> message_to_cvimage env (bm_msg r) = None)
         \<or> (type_name = ''CompressedImage'' \<and> compressed_image_to_cvimage env (bm_msg r) = None)"
  shows "process_bag_file_loop env file_name sfx (before @ r # rest) s =
           (Raised DecodeError,
            add_call (if type_name = ''Image'' then DecodeRaw (bm_msg r)
                      else DecodeCompressed (bm_msg r)) s1)"
  using assms(1,2) process_bag_message_decode_error [OF assms(3,4)]
  by (simp add: process_bag_file_loop_append)

lemma opened_add_call:
  "opened (calls (add_call c s)) = opened (calls s) @ (case c of OpenBag f \<Rightarrow> [f] | _ \<Rightarrow> [])"
  by (simp add: opened_def add_call_def)

lemma opened_process_bag_message:
  "opened (calls (snd (process_bag_message env file_name topic message type_name time_stamp sfx s)))
     = opened (calls s)"
  by (auto simp: process_bag_message_def decode_def makedirs_def imwrite_def opened_add_call Let_def
           split: sum.splits prod.splits option.splits)

lemma opened_process_bag_file_loop:
  "opened (calls (snd (process_bag_file_loop env file_name sfx rs s))) = opened (calls s)"
proof (induction rs arbitrary: s)
  case Nil
  then show ?case by simp
next
  case (Cons r rs)
  show ?case
  proof (cases "class_datatype (bm_class r)")
    case (Inl e)
    then show ?thesis by simp
  next
    case (Inr dt)
    obtain out s1 where step:
      "process_bag_message env file_name (bm_topic r) (bm_msg r) dt (bm_time r) sfx s = (out, s1)"
      by (cases "process_bag_message env file_name (bm_topic r) (bm_msg r) dt (bm_time r) sfx s")
    with opened_process_bag_message [of env file_name "bm_topic r" "bm_msg r" dt "bm_time r" sfx s]
    have "opened (calls s1) = opened (calls s)" by simp
    with Inr step Cons.IH [of s1] show ?thesis by (cases out) simp_all
  qed
qed

lemma opened_process_bag_file:
  assumes "process_bag_file env file_name topics start_time end_time s = (out, s')"
  shows "(out = Done \<longrightarrow> opened (calls s') = opened (calls s) @ [file_name])
         \<and> (opened (calls s') = opened (calls s) @ [file_name] \<or> opened (calls s') = opened (calls s))"
proof (cases "utcfromtimestamp (secs start_time)")
  case (Inl e)
  with assms show ?thesis by (auto simp: process_bag_file_def opened_add_call)
next
  case st: (Inr dt_start)
  show ?thesis
  proof (cases "utcfromtimestamp (secs end_time)")
    case (Inl e)
    with st assms show ?thesis by (auto simp: process_bag_file_def opened_add_call)
  next
    case en: (Inr dt_end)
    show ?thesis
    proof (cases "Bag env file_name")
      case None
      with st en assms show ?thesis by (auto simp: process_bag_file_def opened_add_call)
    next
      case (Some bag)
      let ?s = "add_call (OpenBag file_name) (add_call (LogInfo (ProcessingFile file_name)) s)"
      let ?sfx = "strftime dt_start @ ''_'' @ strftime dt_end"
      let ?rs = "read_messages bag topics start_time end_time filter_image_msgs"
      obtain o1 s1 where run: "process_bag_file_loop env file_name ?sfx ?rs ?s = (o1, s1)"
        by (cases "process_bag_file_loop env file_name ?sfx ?rs ?s")
      with opened_process_bag_file_loop [of env file_name ?sfx ?rs ?s]
      have "opened (calls s1) = opened (calls s) @ [file_name]"
        by (simp add: opened_add_call)
      with st en Some run assms show ?thesis
        by (cases o1) (auto simp: process_bag_file_def opened_add_call)
    qed
  qed
qed

lemma opened_process_bag_files_loop:
  assumes "process_bag_files_loop env fls topics start_time end_time s = (out, s')"
  shows "\<exists>k \<le> length fls. opened (calls s') = opened (calls s) @ take k fls
                            \<and> (out = Done \<longrightarrow> k = length fls)"
  using assms
proof (induction fls arbitrary: s)
  case Nil
  then show ?case by simp
next
  case (Cons fl fls)
  obtain o1 s1 where step: "process_bag_file env fl topics start_time end_time s = (o1, s1)"
    by (cases "process_bag_file env fl topics start_time end_time s")
  note op = opened_process_bag_file [OF step]
  show ?case
  proof (cases o1)
    case Done
    with step Cons.prems
    have "process_bag_files_loop env fls topics start_time end_time s1 = (out, s')" by simp
    from Cons.IH [OF this] obtain k where k: "k \<le> length fls"
      "opened (calls s') = opened (calls s1) @ take k fls" "out = Done \<longrightarrow> k = length fls"
      by blast
    with op Done have "opened (calls s') = opened (calls s) @ take (Suc k) (fl # fls)" by simp
    with k show ?thesis by (intro exI [of _ "Suc k"]) simp
  next
    case (Raised e)
    with step Cons.prems have eq: "out = Raised e" "s' = s1" by simp_all
    from op eq show ?thesis
    proof (elim conjE disjE)
      assume "opened (calls s1) = opened (calls s) @ [fl]"
      with eq show ?thesis by (intro exI [of _ "Suc 0"]) simp
    next
      assume "opened (calls s1) = opened (calls s)"
      with eq show ?thesis by (intro exI [of _ 0]) simp
    qed
  qed
qed

subsection \<open>Evaluating the example\<close>

lemma ex_civil: "civil_from_days 19591 = (2023, 8, 22)"
  unfolding civil_from_days_def by (simp only: Let_def) simp

lemma ex_utc_48: "utcfromtimestamp 1692729228 = Inr \<lparr>dt_year = 2023, dt_month = 8, dt_day = 22,
     dt_hour = 18, dt_minute = 33, dt_second = 48\<rparr>"
  by (simp add: utcfromtimestamp_def ex_civil)

lemma ex_utc_49: "utcfromtimestamp 1692729229 = Inr \<lparr>dt_year = 2023, dt_month = 8, dt_day = 22,
     dt_hour = 18, dt_minute = 33, dt_second = 49\<rparr>"
  by (simp add: utcfromtimestamp_def ex_civil)

lemma ex_utc_50: "utcfromtimestamp 1692729230 = Inr \<lparr>dt_year = 2023, dt_month = 8, dt_day = 22,
     dt_hour = 18, dt_minute = 33, dt_second = 50\<rparr>"
  by (simp add: utcfromtimestamp_def ex_civil)

lemma ex_utc_52: "utcfromtimestamp 1692729232 = Inr \<lparr>dt_year = 2023, dt_month = 8, dt_day = 22,
     dt_hour = 18, dt_minute = 33, dt_second = 52\<rparr>"
  by (simp add: utcfromtimestamp_def ex_civil)

lemma ex_strftime:
  "strftime \<lparr>dt_year = 2023, dt_month = 8, dt_day = 22,
      dt_hour = 18, dt_minute = 33, dt_second = 48\<rparr> = ''2023-08-22_18-33-48''"
  "strftime \<lparr>dt_year = 2023, dt_month = 8, dt_day = 22,
      dt_hour = 18, dt_minute = 33, dt_second = 49\<rparr> = ''2023-08-22_18-33-49''"
  "strftime \<lparr>dt_year = 2023, dt_month = 8, dt_day = 22,
      dt_hour = 18, dt_minute = 33, dt_second = 50\<rparr> = ''2023-08-22_18-33-50''"
  "strftime \<lparr>dt_year = 2023, dt_month = 8, dt_day = 22,
      dt_hour = 18, dt_minute = 33, dt_second = 52\<rparr> = ''2023-08-22_18-33-52''"
  by (simp_all add: strftime_def zfill_def str_nat.simps digit_char_def)

lemma ex_base_name: "get_file_name (basename ''/data1/s3/bg/a.bag'') = ''a''"
  by (simp add: get_file_name_def basename_def splitext_def lower_def lower_char_def)

lemma ex_class_image: "class_datatype ex_image_class = Inr ''Image''"
  by (simp add: class_datatype_def split_def ex_image_class_def)

lemma ex_class_compressed: "class_datatype ex_compressed_class = Inr ''CompressedImage''"
  by (simp add: class_datatype_def split_def ex_compressed_class_def)

lemma ex_read_messages:
  "read_messages ex_bag None \<lparr>secs = 1692729228, nsecs = 0\<rparr>
      \<lparr>secs = 1692729232, nsecs = 0\<rparr> filter_image_msgs
   = [ex_msg ex_depth_topic ''sensor_msgs/Image'' ex_image_class ''depth1'' 1692729229 5,
      ex_msg ex_color_topic ''sensor_msgs/CompressedImage'' ex_compressed_class ''color1''
        1692729230 70]"
  by (simp add: read_messages_def ex_bag_def ex_msg_def filter_image_msgs_def DATA_TYPES_def
        to_nsec_def)

lemma out_names_Inr:
  assumes "utcfromtimestamp (secs time_stamp) = Inr dt"
  shows "out_names file_name topic type_name time_stamp sfx =
           Inr (DESTINATION_LOCAL_PICTURES @ ''/'' @ topic_str topic @ ''/'' @ type_name @ ''/''
                  @ sfx @ ''/'',
                strftime dt @ ''-'' @ str_nat (nsecs time_stamp) @ ''(''
                  @ get_file_name (basename file_name) @ '')'')"
  using assms by (simp add: out_names_def)

lemma dirs_add_call [simp]: "dirs (add_call c s) = dirs s"
  by (simp add: add_call_def)

lemma files_add_call [simp]: "files (add_call c s) = files s"
  by (simp add: add_call_def)

lemma calls_add_call [simp]: "calls (add_call c s) = calls s @ [c]"
  by (simp add: add_call_def)

lemma makedirs_simps [simp]:
  "dirs (makedirs p s) = insert p (dirs s)"
  "files (makedirs p s) = files s"
  "calls (makedirs p s) = calls s @ [MakeDirs p]"
  by (simp_all add: makedirs_def add_call_def)

lemma imwrite_simps [simp]:
  "dirs (imwrite p img s) = dirs s"
  "files (imwrite p img s) = (files s)(p \<mapsto> img)"
  "calls (imwrite p img s) = calls s @ [ImWrite p img]"
  by (simp_all add: imwrite_def add_call_def)

lemma process_bag_message_image:
  assumes "out_names file_name topic ''Image'' time_stamp sfx = Inr (d, n)"
    and "message_to_cvimage env message = Some img"
  shows "process_bag_message env file_name topic message ''Image'' time_stamp sfx s =
           (Done, add_call (LogInfo (WrittenFile n))
                    (imwrite (d @ n @ ''.png'') img
                       (if d \<notin> dirs s then makedirs d (add_call (DecodeRaw message) s)
                        else add_call (DecodeRaw message) s)))"
  using assms by (simp add: process_bag_message_def decode_def)

lemma process_bag_message_compressed:
  assumes "out_names file_name topic ''CompressedImage'' time_stamp sfx = Inr (d, n)"
    and "compressed_image_to_cvimage env message = Some img"
  shows "process_bag_message env file_name topic message ''CompressedImage'' time_stamp sfx s =
           (Done, add_call (LogInfo (WrittenFile n))
                    (imwrite (d @ n @ ''.png'') img
                       (if d \<notin> dirs s then makedirs d (add_call (DecodeCompressed message) s)
                        else add_call (DecodeCompressed message) s)))"
  using assms by (simp add: process_bag_message_def decode_def)

lemma ex_names_depth1:
  "out_names ''/data1/s3/bg/a.bag'' ex_depth_topic ''Image'' \<lparr>secs = 1692729229, nsecs = 5\<rparr>
      ''2023-08-22_18-33-48_2023-08-22_18-33-52''
   = Inr (''/data1/s3/pictures/realsense_gripper_aligned_depth_to_color_image_raw/Image/2023-08-22_18-33-48_2023-08-22_18-33-52/'',
          ''2023-08-22_18-33-49-5(a)'')"
  by (simp add: ex_utc_49 out_names_def ex_strftime ex_base_name
        DESTINATION_LOCAL_PICTURES_def topic_str_def replace_char_def ex_depth_topic_def
        str_nat.simps digit_char_def)

lemma ex_names_color1:
  "out_names ''/data1/s3/bg/a.bag'' ex_color_topic ''CompressedImage''
      \<lparr>secs = 1692729230, nsecs = 70\<rparr> ''2023-08-22_18-33-48_2023-08-22_18-33-52''
   = Inr (''/data1/s3/pictures/realsense_gripper_color_image_raw_compressed/CompressedImage/2023-08-22_18-33-48_2023-08-22_18-33-52/'',
          ''2023-08-22_18-33-50-70(a)'')"
  by (simp add: ex_utc_50 out_names_def ex_strftime ex_base_name
        DESTINATION_LOCAL_PICTURES_def topic_str_def replace_char_def ex_color_topic_def
        str_nat.simps digit_char_def)

lemma ex_decoders:
  "message_to_cvimage ex_env ''depth1'' = Some [[1]]"
  "compressed_image_to_cvimage ex_env ''color1'' = Some [[2, 2]]"
  by (simp_all add: ex_env_def)

lemma ex_run_a:
  assumes "dirs s = {}"
  shows "process_bag_file ex_env ''/data1/s3/bg/a.bag'' None
      \<lparr>secs = 1692729228, nsecs = 0\<rparr> \<lparr>secs = 1692729232, nsecs = 0\<rparr> s
   = (Done,
      add_call (CloseBag ''/data1/s3/bg/a.bag'')
       (add_call (LogInfo (WrittenFile ''2023-08-22_18-33-50-70(a)''))
         (imwrite ''/data1/s3/pictures/realsense_gripper_color_image_raw_compressed/CompressedImage/2023-08-22_18-33-48_2023-08-22_18-33-52/2023-08-22_18-33-50-70(a).png'' [[2, 2]]
           (makedirs ''/data1/s3/pictures/realsense_gripper_color_image_raw_compressed/CompressedImage/2023-08-22_18-33-48_2023-08-22_18-33-52/''
             (add_call (DecodeCompressed ''color1'')
               (add_call (LogInfo (WrittenFile ''2023-08-22_18-33-49-5(a)''))
                 (imwrite ''/data1/s3/pictures/realsense_gripper_aligned_depth_to_color_image_raw/Image/2023-08-22_18-33-48_2023-08-22_18-33-52/2023-08-22_18-33-49-5(a).png'' [[1]]
                   (makedirs ''/data1/s3/pictures/realsense_gripper_aligned_depth_to_color_image_raw/Image/2023-08-22_18-33-48_2023-08-22_18-33-52/''
                     (add_call (DecodeRaw ''depth1'')
                       (add_call (OpenBag ''/data1/s3/bg/a.bag'')
                         (add_call (LogInfo (ProcessingFile ''/data1/s3/bg/a.bag'')) s)))))))))))"
proof -
  have bag: "Bag ex_env ''/data1/s3/bg/a.bag'' = Some ex_bag"
    by (simp add: ex_env_def)
  note m1 = process_bag_message_image [OF ex_names_depth1 ex_decoders(1)]
  note m2 = process_bag_message_compressed [OF ex_names_color1 ex_decoders(2)]
  show ?thesis
    using assms
    by (simp add: process_bag_file_def ex_utc_48 ex_utc_52 ex_strftime bag ex_read_messages
          ex_msg_def ex_class_image ex_class_compressed m1 m2)
qed

lemma ex_corrupt_b:
  "process_bag_file ex_env ''/data1/s3/bg/b.bag'' None
      \<lparr>secs = 1692729228, nsecs = 0\<rparr> \<lparr>secs = 1692729232, nsecs = 0\<rparr> s
   = (Raised ROSBagException,
      add_call (OpenBag ''/data1/s3/bg/b.bag'')
        (add_call (LogInfo (ProcessingFile ''/data1/s3/bg/b.bag'')) s))"
  by (simp add: process_bag_file_def ex_utc_48 ex_utc_52 ex_env_def)

lemma ex_window:
  "from_sec (timestamp \<lparr>dt_year = 2023, dt_month = 8, dt_day = 22,
                    dt_hour = 18, dt_minute = 33, dt_second = 48\<rparr>) = Inr \<lparr>secs = 1692729228, nsecs = 0\<rparr>"
  "from_sec (timestamp \<lparr>dt_year = 2023, dt_month = 8, dt_day = 22,
                    dt_hour = 18, dt_minute = 33, dt_second = 52\<rparr>) = Inr \<lparr>secs = 1692729232, nsecs = 0\<rparr>"
  by (simp_all add: timestamp_def days_from_civil_def from_sec_def)

lemma ex_listing:
  "sort (map (\<lambda>fl. ''/data1/s3/bg/'' @ fl)
      (filter (\<lambda>fl. get_file_extension fl = BAG_FILE_EXTENSION) [''b.bag'', ''notes.txt'', ''a.bag'', ''c.BAG'']))
    = [''/data1/s3/bg/a.bag'', ''/data1/s3/bg/b.bag'', ''/data1/s3/bg/c.BAG'']"
  by (simp add: get_file_extension_def splitext_def basename_def lower_def lower_char_def BAG_FILE_EXTENSION_def)


end
